theory Spec2Isabelle
  imports Main "HOL-Library.Sublist"
begin

section \<open>JavaScript values used by the front end\<close>

text \<open>
  A JavaScript string is a sequence of UTF-16 code units. The model uses \<open>string\<close>
  (a list of \<open>char\<close>), one \<open>char\<close> per code unit, which covers the code units
  \<open>0x00\<close> to \<open>0xFF\<close>; \<open>length\<close> is then the JavaScript \<open>.length\<close>.
  A value that may be \<open>null\<close> or \<open>undefined\<close> is a \<open>string option\<close>.
\<close>

type_synonym jsstring = "string option"

definition falsy :: "jsstring \<Rightarrow> bool" where
  \<comment> \<open>\<open>!text\<close> on a string-or-null value: null, undefined and the empty string\<close>
  "falsy t = (case t of None \<Rightarrow> True | Some s \<Rightarrow> s = [])"

definition js_or :: "jsstring \<Rightarrow> jsstring \<Rightarrow> jsstring" where
  \<comment> \<open>\<open>a || b\<close>\<close>
  "js_or a b = (if falsy a then b else a)"

definition or_default :: "jsstring \<Rightarrow> string \<Rightarrow> string" where
  \<comment> \<open>\<open>a || 'literal'\<close>\<close>
  "or_default a d = (if falsy a then d else the a)"

definition newline :: char where "newline = CHR 0x0A"
definition tab :: char where "tab = CHR 0x09"
definition dquote :: char where "dquote = CHR 0x22"
definition nbsp :: char where "nbsp = CHR 0xA0"

definition js_whitespace :: "char \<Rightarrow> bool" where
  \<comment> \<open>WhiteSpace and LineTerminator of ECMAScript, below \<open>0x100\<close>: what \<open>trim\<close> strips
      and what \<open>\\s\<close> matches\<close>
  "js_whitespace c =
     (c = CHR 0x09 \<or> c = CHR 0x0A \<or> c = CHR 0x0B \<or> c = CHR 0x0C \<or> c = CHR 0x0D
      \<or> c = CHR 0x20 \<or> c = CHR 0xA0)"

definition trim :: "string \<Rightarrow> string" where
  "trim s = rev (dropWhile js_whitespace (rev (dropWhile js_whitespace s)))"

definition replace_all_char :: "char \<Rightarrow> string \<Rightarrow> string \<Rightarrow> string" where
  \<comment> \<open>\<open>s.replace(/c/g, rep)\<close> for a one-character pattern and a replacement without \<open>$\<close>\<close>
  "replace_all_char c rep s = concat (map (\<lambda>x. if x = c then rep else [x]) s)"

section \<open>Annotation overlay: text helpers\<close>

definition formatDocumentText :: "jsstring \<Rightarrow> string" where
  "formatDocumentText t =
     (if falsy t then []
      else replace_all_char tab ''&nbsp;&nbsp;&nbsp;&nbsp;''
             (replace_all_char newline ''<br>''
               (replace_all_char CHR ''>'' ''&gt;''
                 (replace_all_char CHR ''<'' ''&lt;'' (the t)))))"

definition escape_char :: "char \<Rightarrow> string" where
  \<comment> \<open>The HTML fragment serialisation of one character of a text node (the browser's
      \<open>innerHTML\<close> getter): ampersand, no-break space, less-than and greater-than are
      replaced by character references.\<close>
  "escape_char c =
     (if c = CHR ''&'' then ''&amp;''
      else if c = nbsp then ''&nbsp;''
      else if c = CHR ''<'' then ''&lt;''
      else if c = CHR ''>'' then ''&gt;''
      else [c])"

definition escapeHtml :: "jsstring \<Rightarrow> string" where
  \<comment> \<open>\<open>div.textContent = text; return div.innerHTML\<close>\<close>
  "escapeHtml t = (if falsy t then [] else concat (map escape_char (the t)))"

definition truncateText :: "jsstring \<Rightarrow> nat \<Rightarrow> string" where
  "truncateText t maxLength =
     (if falsy t then []
      else if length (the t) \<le> maxLength then the t
      else take maxLength (the t) @ ''...'')"

text \<open>
  Both type tables are object literals, read with \<open>typeMap[type] || default\<close>. An object
  literal inherits the members of \<open>Object.prototype\<close>, so the lookup also succeeds for
  their names: the value is then a function (an object for \<open>__proto__\<close>), and the
  template literal that receives it prints its text. The text of a native function is
  the one V8 prints; other engines lay out \<open>[native code]\<close> differently.
\<close>

definition object_prototype_member :: "string \<Rightarrow> string option" where
  "object_prototype_member key =
     (if key = ''constructor'' then Some ''function Object() { [native code] }''
      else if key = ''__proto__'' then Some ''[object Object]''
      else if key \<in> set [''toString'', ''toLocaleString'', ''valueOf'', ''hasOwnProperty'',
                ''isPrototypeOf'', ''propertyIsEnumerable'', ''__defineGetter__'',
                ''__defineSetter__'', ''__lookupGetter__'', ''__lookupSetter__'']
      then Some (''function '' @ key @ ''() { [native code] }'')
      else None)"

definition lookup_or :: "(string \<times> string) list \<Rightarrow> jsstring \<Rightarrow> string \<Rightarrow> string" where
  \<comment> \<open>\<open>typeMap[type] || default\<close>, as the text a template literal prints; a null or
      undefined type is the key \<open>null\<close> or \<open>undefined\<close>, which no table and no prototype
      holds\<close>
  "lookup_or typeMap ty default_text =
     (case ty of
        None \<Rightarrow> default_text
      | Some key \<Rightarrow>
          (case map_of typeMap key of
             Some v \<Rightarrow> (if v = [] then default_text else v)
           | None \<Rightarrow>
               (case object_prototype_member key of
                  Some member_text \<Rightarrow> member_text
                | None \<Rightarrow> default_text)))"

definition getIssueHighlightClass :: "jsstring \<Rightarrow> string" where
  "getIssueHighlightClass ty =
     lookup_or
       [(''terminology'', ''highlight-terminology''),
        (''deletion'', ''highlight-deletion''),
        (''formatting'', ''highlight-formatting''),
        (''party_label'', ''highlight-party''),
        (''arbitration'', ''highlight-arbitration''),
        (''signature'', ''highlight-signature'')]
       ty ''highlight-general''"

definition formatIssueType :: "jsstring \<Rightarrow> string" where
  "formatIssueType ty =
     lookup_or
       [(''terminology'', ''Terminology''),
        (''deletion'', ''Deletion Required''),
        (''formatting'', ''Formatting''),
        (''party_label'', ''Party Label''),
        (''arbitration'', ''Arbitration Clause''),
        (''signature'', ''Signature'')]
       ty ''General''"

section \<open>Plain text to rich content\<close>

definition is_upper :: "char \<Rightarrow> bool" where
  \<comment> \<open>\<open>[A-Z]\<close>\<close>
  "is_upper c = (65 \<le> (of_char c :: nat) \<and> (of_char c :: nat) \<le> 90)"

definition is_digit :: "char \<Rightarrow> bool" where
  \<comment> \<open>\<open>\\d\<close>\<close>
  "is_digit c = (48 \<le> (of_char c :: nat) \<and> (of_char c :: nat) \<le> 57)"

definition to_upper :: "char \<Rightarrow> char" where
  \<comment> \<open>the canonical form the \<open>i\<close> flag compares: below \<open>0x100\<close> only \<open>a\<close> to \<open>z\<close> map
      to an ASCII capital\<close>
  "to_upper c =
     (if 97 \<le> (of_char c :: nat) \<and> (of_char c :: nat) \<le> 122
      then char_of ((of_char c :: nat) - 32) else c)"

definition looks_like_html :: "string \<Rightarrow> bool" where
  \<comment> \<open>\<open>text.trim().startsWith('<')\<close>\<close>
  "looks_like_html s = prefix ''<'' (trim s)"

function split_blank_lines :: "string \<Rightarrow> string \<Rightarrow> string list" where
  \<comment> \<open>\<open>text.split(/\\n\\n+/)\<close>: the first argument is the chunk read so far; a maximal run
      of two or more newlines is one separator\<close>
  "split_blank_lines cur [] = [cur]"
| "split_blank_lines cur (c # cs) =
     (if c = newline \<and> prefix [newline] cs
      then cur # split_blank_lines [] (dropWhile (\<lambda>x. x = newline) cs)
      else split_blank_lines (cur @ [c]) cs)"
  by pat_completeness auto
termination
  by (relation "measure (\<lambda>(cur, s). length s)")
     (auto simp add: length_dropWhile_le less_Suc_eq_le)

definition all_caps :: "string \<Rightarrow> bool" where
  \<comment> \<open>\<open>/^[A-Z][A-Z\\s]+$/\<close>\<close>
  "all_caps p =
     (case p of [] \<Rightarrow> False
      | c # cs \<Rightarrow> is_upper c \<and> cs \<noteq> [] \<and> list_all (\<lambda>x. is_upper x \<or> js_whitespace x) cs)"

definition keyword_then_number :: "string \<Rightarrow> string \<Rightarrow> bool" where
  \<comment> \<open>\<open>/^KEYWORD\\s*\\d+/i\<close> for one keyword, given in capitals\<close>
  "keyword_then_number kw p =
     (length kw \<le> length p \<and> map to_upper (take (length kw) p) = kw
      \<and> (case dropWhile js_whitespace (drop (length kw) p) of
            [] \<Rightarrow> False | d # _ \<Rightarrow> is_digit d))"

definition chapter_marker :: "string \<Rightarrow> bool" where
  \<comment> \<open>\<open>/^(PASAL|ARTICLE|BAB|CHAPTER)\\s*\\d+/i\<close>\<close>
  "chapter_marker p =
     (keyword_then_number ''PASAL'' p \<or> keyword_then_number ''ARTICLE'' p
      \<or> keyword_then_number ''BAB'' p \<or> keyword_then_number ''CHAPTER'' p)"

definition numbered :: "string \<Rightarrow> bool" where
  \<comment> \<open>\<open>/^\\d+\\.\\s/\<close>\<close>
  "numbered p =
     (case p of [] \<Rightarrow> False
      | c # _ \<Rightarrow> is_digit c \<and>
          (case dropWhile is_digit p of
             dot # w # _ \<Rightarrow> dot = CHR ''.'' \<and> js_whitespace w
           | _ \<Rightarrow> False))"

definition paragraph_block :: "string \<Rightarrow> string" where
  \<comment> \<open>what one non-empty trimmed chunk appends to \<open>html\<close>\<close>
  "paragraph_block para =
     (if all_caps para \<or> chapter_marker para then
        ''<h2>'' @ escapeHtml (Some para) @ ''</h2>'' @ [newline]
      else if numbered para then
        ''<p>'' @ escapeHtml (Some para) @ ''</p>'' @ [newline]
      else
        ''<p>'' @ escapeHtml (Some (replace_all_char newline ''<br>'' para)) @ ''</p>''
          @ [newline])"

definition append_paragraph :: "string \<Rightarrow> string \<Rightarrow> string" where
  \<comment> \<open>the body of \<open>paragraphs.forEach\<close>, on the accumulated \<open>html\<close>\<close>
  "append_paragraph html para =
     (let p = trim para in if p = [] then html else html @ paragraph_block p)"

definition convertTextToHtml :: "jsstring \<Rightarrow> string" where
  "convertTextToHtml t =
     (if falsy t then ''<p></p>''
      else if looks_like_html (the t) then the t
      else (let html = foldl append_paragraph [] (split_blank_lines [] (the t))
            in if html = [] then ''<p></p>'' else html))"

section \<open>Annotation overlay: cleanup results\<close>

record cleanup_issue =
  issue_type :: jsstring
  location :: jsstring
  original_text :: jsstring
  rule :: jsstring

text \<open>
  The cleanup analysis as the backend sends it. An absent \<open>issues\<close> list is read as the
  empty list (\<open>result.issues || []\<close>); the change summary and the open items only feed
  counters and a list and are left out.
\<close>

record cleanup_result =
  cleanup_document_id :: string
  original_content :: jsstring
  cleaned_indonesian :: jsstring
  cleaned_english :: jsstring
  edited_indonesian :: jsstring
  edited_english :: jsstring
  issues :: "cleanup_issue list"

fun indexOf :: "string \<Rightarrow> string \<Rightarrow> nat option" where
  \<comment> \<open>\<open>s.indexOf(pat)\<close>, with \<open>None\<close> for \<open>-1\<close>\<close>
  "indexOf [] pat = (if pat = [] then Some 0 else None)"
| "indexOf (c # cs) pat =
     (if prefix pat (c # cs) then Some 0 else map_option Suc (indexOf cs pat))"

fun getSubstitution :: "string \<Rightarrow> string \<Rightarrow> string \<Rightarrow> string \<Rightarrow> string" where
  \<comment> \<open>ECMAScript GetSubstitution for a string pattern (no captures): in the replacement
      text, dollar dollar is a dollar sign, dollar ampersand the matched text, dollar
      backtick the text before the match, dollar apostrophe the text after it; any other
      dollar sign stands for itself\<close>
  "getSubstitution matched preceding following [] = []"
| "getSubstitution matched preceding following [c] = [c]"
| "getSubstitution matched preceding following (c # d # rest) =
     (if c = CHR ''$'' \<and> d = CHR ''$'' then CHR ''$'' # getSubstitution matched preceding following rest
      else if c = CHR ''$'' \<and> d = CHR ''&'' then matched @ getSubstitution matched preceding following rest
      else if c = CHR ''$'' \<and> d = CHR 0x60 then preceding @ getSubstitution matched preceding following rest
      else if c = CHR ''$'' \<and> d = CHR 0x27 then following @ getSubstitution matched preceding following rest
      else c # getSubstitution matched preceding following (d # rest))"

definition js_replace :: "string \<Rightarrow> string \<Rightarrow> string \<Rightarrow> string" where
  \<comment> \<open>\<open>s.replace(pat, rep)\<close> with a string pattern: the first occurrence only\<close>
  "js_replace s pat rep =
     (case indexOf s pat of
        None \<Rightarrow> s
      | Some i \<Rightarrow>
          take i s
          @ getSubstitution pat (take i s) (drop (i + length pat) s) rep
          @ drop (i + length pat) s)"

definition highlight_mark :: "cleanup_issue \<Rightarrow> string" where
  \<comment> \<open>the replacement text of one issue: the \<open>mark\<close> element around the escaped fragment\<close>
  "highlight_mark issue =
     ''<mark class='' @ [dquote] @ getIssueHighlightClass (issue_type issue) @ [dquote]
     @ '' title='' @ [dquote] @ escapeHtml (rule issue) @ [dquote] @ ''>''
     @ escapeHtml (original_text issue) @ ''</mark>''"

definition highlightIssue :: "string \<Rightarrow> cleanup_issue \<Rightarrow> string" where
  \<comment> \<open>the body of \<open>issues.forEach\<close> on the running \<open>originalText\<close>\<close>
  "highlightIssue originalText issue =
     (if falsy (original_text issue) then originalText
      else js_replace originalText (the (original_text issue)) (highlight_mark issue))"

definition highlightIssues :: "string \<Rightarrow> cleanup_issue list \<Rightarrow> string" where
  "highlightIssues originalText iss = foldl highlightIssue originalText iss"

definition pre_open :: string where
  "pre_open = ''<pre class='' @ [dquote] @ ''document-text'' @ [dquote] @ ''>''"

record issue_card =
  card_class :: string
  type_badge :: string
  location_html :: string
  original_text_html :: string
  rule_html :: string

definition renderIssueCard :: "cleanup_issue \<Rightarrow> issue_card" where
  \<comment> \<open>one card of the issues list: the class of the card and the content of its four
      \<open>div\<close> elements\<close>
  "renderIssueCard issue =
     \<lparr>card_class = ''cleanup-issue-card issue-type-'' @ or_default (issue_type issue) ''general'',
      type_badge = formatIssueType (issue_type issue),
      location_html = escapeHtml (Some (or_default (location issue) ''Unknown location'')),
      original_text_html =
        [dquote] @ escapeHtml (Some (truncateText (original_text issue) 100)) @ [dquote],
      rule_html = escapeHtml (Some (or_default (rule issue) ''General cleanup rule''))\<rparr>"

record cleanup_view =
  original_content_html :: string
  cleaned_indonesian_html :: string
  cleaned_english_html :: string
  issue_cards :: "issue_card list"

definition renderCleanupResults :: "cleanup_result \<Rightarrow> cleanup_view" where
  \<comment> \<open>the \<open>innerHTML\<close> written to the three document panes, and the issue cards\<close>
  "renderCleanupResults result =
     \<lparr>original_content_html =
        pre_open
        @ formatDocumentText
            (Some (highlightIssues (or_default (original_content result) []) (issues result)))
        @ ''</pre>'',
      cleaned_indonesian_html =
        pre_open
        @ formatDocumentText
            (Some (or_default (cleaned_indonesian result) ''No Indonesian text available.''))
        @ ''</pre>'',
      cleaned_english_html =
        pre_open
        @ formatDocumentText
            (Some (or_default (cleaned_english result) ''No English text available.''))
        @ ''</pre>'',
      issue_cards = map renderIssueCard (issues result)\<rparr>"

text \<open>A cleanup result with one terminology issue whose fragment contains \<open><\<close>.\<close>

definition sample_issue :: cleanup_issue where
  "sample_issue =
     \<lparr>issue_type = Some ''terminology'', location = Some ''Clause 1'',
      original_text = Some ''a<b'', rule = Some ''r''\<rparr>"

definition sample_result :: cleanup_result where
  "sample_result =
     \<lparr>cleanup_document_id = ''d1'', original_content = Some ''if a<b or a<b'',
      cleaned_indonesian = None, cleaned_english = None,
      edited_indonesian = None, edited_english = None,
      issues = [sample_issue]\<rparr>"

section \<open>Compliance report rendering\<close>

text \<open>
  The report as the backend sends it: the document it belongs to and the score, an
  integer from 0 to 100 that may be missing. The issue, recommendation and law lists
  are left out.
\<close>

record compliance_report =
  report_document_id :: string
  compliance_score :: "int option"

record score_view =
  scoreText :: int
  stroke :: string
  statusLabel :: string
  statusColor :: string

definition renderComplianceReport :: "compliance_report \<Rightarrow> score_view" where
  \<comment> \<open>the score circle and the status label; the issue, recommendation and law lists
      that follow in the source do not read the score\<close>
  "renderComplianceReport report =
     (let score = (case compliance_score report of None \<Rightarrow> 0 | Some n \<Rightarrow> n) in
      if score \<ge> 90 then
        \<lparr>scoreText = score, stroke = ''var(--success)'',
         statusLabel = ''COMPLIANT'', statusColor = ''var(--success)''\<rparr>
      else if score \<ge> 70 then
        \<lparr>scoreText = score, stroke = ''var(--primary)'',
         statusLabel = ''MOSTLY COMPLIANT'', statusColor = ''var(--primary)''\<rparr>
      else if score \<ge> 50 then
        \<lparr>scoreText = score, stroke = ''var(--warning)'',
         statusLabel = ''NEEDS REVIEW'', statusColor = ''var(--warning)''\<rparr>
      else
        \<lparr>scoreText = score, stroke = ''var(--danger)'',
         statusLabel = ''NON-COMPLIANT'', statusColor = ''var(--danger)''\<rparr>)"

section \<open>Session state and backend responses\<close>

text \<open>
  The module-level variables of the front end, together with what the handlers leave on
  the page and on the network: the section shown, the alerts raised, the editor status
  line, the requests sent, the report and cleanup views rendered, and the exceptions that
  escaped a handler. The payloads are typed by the response shapes of the backend.
\<close>

record training_module =
  module_document_id :: jsstring
  document_type :: jsstring
  summary :: jsstring

datatype http_request =
    PostUpload
  | GetCleanup jsstring
  | PostCreateModule jsstring
  | GetModule string
  | GetReport string
  | PostReview jsstring "string list"
  | PostRerunCleanup jsstring
  | PutSave jsstring string string
  | GetHistory
  | GetCleanupHistory
  | GetDocuments

datatype 'a response =
    Rejected string \<comment> \<open>\<open>fetch\<close> threw; the message of the error\<close>
  | NotOk \<comment> \<open>a response whose \<open>ok\<close> is false\<close>
  | OkBadJson string \<comment> \<open>an ok response whose \<open>json()\<close> threw; the message\<close>
  | OkJson 'a \<comment> \<open>an ok response and its parsed body\<close>

record session =
  documentId :: jsstring
  trainingModule :: "training_module option"
  complianceReport :: "compliance_report option"
  cleanupResult :: "cleanup_result option"
  editorInstance :: "string option"
  currentEditorLanguage :: string
  shown_section :: string
  alerts :: "string list"
  editor_status :: "string \<times> string"
  requests :: "http_request list"
  report_view :: "score_view option"
  cleanup_shown :: "cleanup_view option"
  uncaught :: "string list"

definition initial_session :: session where
  "initial_session =
     \<lparr>documentId = None, trainingModule = None, complianceReport = None,
      cleanupResult = None, editorInstance = None, currentEditorLanguage = ''indonesian'',
      shown_section = ''upload'', alerts = [], editor_status = ([], []), requests = [],
      report_view = None, cleanup_shown = None, uncaught = []\<rparr>"

definition showSection :: "string \<Rightarrow> session \<Rightarrow> session" where
  "showSection sectionId s = s\<lparr>shown_section := sectionId\<rparr>"

definition alert :: "string \<Rightarrow> session \<Rightarrow> session" where
  "alert msg s = s\<lparr>alerts := alerts s @ [msg]\<rparr>"

definition fetch :: "http_request \<Rightarrow> session \<Rightarrow> session" where
  "fetch req s = s\<lparr>requests := requests s @ [req]\<rparr>"

definition updateEditorStatus :: "string \<Rightarrow> string \<Rightarrow> session \<Rightarrow> session" where
  "updateEditorStatus status className s = s\<lparr>editor_status := (status, className)\<rparr>"

definition thrown_message :: "string \<Rightarrow> 'a response \<Rightarrow> string" where
  \<comment> \<open>\<open>err.message\<close> in the \<open>catch\<close> block: the literal of \<open>throw new Error(...)\<close> for a
      response that is not ok, the message of the error otherwise\<close>
  "thrown_message literal r =
     (case r of Rejected m \<Rightarrow> m | NotOk \<Rightarrow> literal | OkBadJson m \<Rightarrow> m | OkJson _ \<Rightarrow> [])"

definition click_nav_history :: "session \<Rightarrow> session" where
  "click_nav_history s = fetch GetCleanupHistory (fetch GetHistory (showSection ''history'' s))"

definition click_nav_documents :: "session \<Rightarrow> session" where
  "click_nav_documents s = fetch GetDocuments (showSection ''documents'' s)"

definition renderTrainingModule :: "training_module \<Rightarrow> session \<Rightarrow> session" where
  \<comment> \<open>sets \<open>documentId\<close> to the module's document; the rest fills the module page\<close>
  "renderTrainingModule m s = s\<lparr>documentId := module_document_id m\<rparr>"

definition show_report :: "compliance_report \<Rightarrow> session \<Rightarrow> session" where
  \<comment> \<open>\<open>renderComplianceReport(report); showSection('report')\<close>\<close>
  "show_report report s =
     showSection ''report'' (s\<lparr>report_view := Some (renderComplianceReport report)\<rparr>)"

definition show_cleanup :: "cleanup_result \<Rightarrow> session \<Rightarrow> session" where
  \<comment> \<open>\<open>renderCleanupResults(result); showSection('cleanup')\<close>\<close>
  "show_cleanup result s =
     showSection ''cleanup'' (s\<lparr>cleanup_shown := Some (renderCleanupResults result)\<rparr>)"

subsection \<open>Opening a stored report, module or cleanup result\<close>

text \<open>
  An \<open>async\<close> handler runs up to its \<open>await fetch\<close>, and resumes when the response
  arrives; other handlers may run in between. Each handler is therefore two functions
  on the session: what runs at the call, and what runs at the response.
\<close>

definition viewExistingReport_call :: "string \<Rightarrow> session \<Rightarrow> session" where
  "viewExistingReport_call docId s =
     fetch (GetReport docId) ((showSection ''processing'' s)\<lparr>documentId := Some docId\<rparr>)"

definition viewExistingReport_response ::
  "string \<Rightarrow> compliance_report response \<Rightarrow> session \<Rightarrow> session" where
  "viewExistingReport_response docId r s =
     (case r of
        OkJson report \<Rightarrow> show_report report (s\<lparr>complianceReport := Some report\<rparr>)
      | _ \<Rightarrow> click_nav_history (alert (thrown_message ''Report not found'' r) s))"

definition reAnalyzeDocument_call :: "string \<Rightarrow> session \<Rightarrow> session" where
  "reAnalyzeDocument_call docId s =
     fetch (GetModule docId) ((showSection ''processing'' s)\<lparr>documentId := Some docId\<rparr>)"

definition reAnalyzeDocument_response ::
  "string \<Rightarrow> training_module response \<Rightarrow> session \<Rightarrow> session" where
  "reAnalyzeDocument_response docId r s =
     (case r of
        OkJson m \<Rightarrow>
          showSection ''module'' (renderTrainingModule m (s\<lparr>trainingModule := Some m\<rparr>))
      | _ \<Rightarrow> click_nav_documents (alert (thrown_message ''Could not load document module'' r) s))"

definition viewCleanupResults_call :: "string \<Rightarrow> session \<Rightarrow> session" where
  "viewCleanupResults_call docId s =
     fetch (GetCleanup (Some docId))
       ((showSection ''processing'' s)\<lparr>documentId := Some docId\<rparr>)"

definition viewCleanupResults_response ::
  "string \<Rightarrow> cleanup_result response \<Rightarrow> session \<Rightarrow> session" where
  "viewCleanupResults_response docId r s =
     (case r of
        OkJson result \<Rightarrow> show_cleanup result (s\<lparr>cleanupResult := Some result\<rparr>)
      | _ \<Rightarrow> click_nav_documents (alert (thrown_message ''Cleanup results not found'' r) s))"

subsection \<open>Compliance review, skip to module, re-run cleanup\<close>

definition startReview_click :: "string \<Rightarrow> session \<Rightarrow> session" where
  \<comment> \<open>the argument is the value of the focus-area select; empty for all laws\<close>
  "startReview_click focusArea s =
     (if falsy (documentId s) then s
      else fetch (PostReview (documentId s) (if focusArea = [] then [] else [focusArea]))
             (showSection ''processing'' s))"

definition startReview_response :: "compliance_report response \<Rightarrow> session \<Rightarrow> session" where
  "startReview_response r s =
     (case r of
        OkJson report \<Rightarrow> s\<lparr>complianceReport := Some report\<rparr>
      | _ \<Rightarrow> showSection ''module''
               (alert (''Error: '' @ thrown_message ''Compliance review failed'' r) s))"

definition startReview_timer :: "session \<Rightarrow> session" where
  \<comment> \<open>the \<open>setTimeout\<close> callback: it reads \<open>complianceReport\<close> when it fires\<close>
  "startReview_timer s =
     (case complianceReport s of
        Some report \<Rightarrow> show_report report s
      | None \<Rightarrow> s\<lparr>uncaught := uncaught s @ [''TypeError'']\<rparr>)"

definition module_timer :: "session \<Rightarrow> session" where
  \<comment> \<open>\<open>renderTrainingModule(trainingModule); showSection('module')\<close> after the delay\<close>
  "module_timer s =
     (case trainingModule s of
        Some m \<Rightarrow> showSection ''module'' (renderTrainingModule m s)
      | None \<Rightarrow> s\<lparr>uncaught := uncaught s @ [''TypeError'']\<rparr>)"

definition cleanup_timer :: "session \<Rightarrow> session" where
  \<comment> \<open>\<open>renderCleanupResults(cleanupResult); showSection('cleanup')\<close> after the delay\<close>
  "cleanup_timer s =
     (case cleanupResult s of
        Some result \<Rightarrow> show_cleanup result s
      | None \<Rightarrow> s\<lparr>uncaught := uncaught s @ [''TypeError'']\<rparr>)"

definition skipToModule_click :: "session \<Rightarrow> session" where
  "skipToModule_click s =
     (if falsy (documentId s) then s
      else fetch (PostCreateModule (documentId s)) (showSection ''processing'' s))"

definition skipToModule_response :: "training_module response \<Rightarrow> session \<Rightarrow> session" where
  "skipToModule_response r s =
     (case r of
        OkJson m \<Rightarrow> s\<lparr>trainingModule := Some m\<rparr>
      | _ \<Rightarrow> showSection ''cleanup''
               (alert (''Error: '' @ thrown_message ''Module creation failed'' r) s))"

definition rerunCleanup_click :: "session \<Rightarrow> session" where
  "rerunCleanup_click s =
     (if falsy (documentId s) then s
      else fetch (PostRerunCleanup (documentId s)) (showSection ''processing'' s))"

definition rerunCleanup_response :: "cleanup_result response \<Rightarrow> session \<Rightarrow> session" where
  "rerunCleanup_response r s =
     (case r of
        OkJson result \<Rightarrow> s\<lparr>cleanupResult := Some result\<rparr>
      | _ \<Rightarrow> showSection ''cleanup''
               (alert (''Error: '' @ thrown_message ''Cleanup failed'' r) s))"

subsection \<open>Upload, cleanup analysis, module creation\<close>

definition startProcess_click :: "bool \<Rightarrow> session \<Rightarrow> session" where
  \<comment> \<open>the argument tells whether a file is selected\<close>
  "startProcess_click file s =
     (if \<not> file then s else fetch PostUpload (showSection ''processing'' s))"

definition startProcess_upload_response :: "jsstring response \<Rightarrow> session \<Rightarrow> session" where
  \<comment> \<open>the parsed body is \<open>uploadData.id\<close>\<close>
  "startProcess_upload_response r s =
     (case r of
        OkJson uid \<Rightarrow> fetch (GetCleanup uid) (s\<lparr>documentId := uid\<rparr>)
      | _ \<Rightarrow> showSection ''upload'' (alert (''Error: '' @ thrown_message ''Upload failed'' r) s))"

definition startProcess_cleanup_response ::
  "cleanup_result response \<Rightarrow> session \<Rightarrow> session" where
  \<comment> \<open>an ok response stores the result and returns; anything else, also an error caught
      by the inner \<open>try\<close>, goes on to create the training module\<close>
  "startProcess_cleanup_response r s =
     (case r of
        OkJson result \<Rightarrow> s\<lparr>cleanupResult := Some result\<rparr>
      | _ \<Rightarrow> fetch (PostCreateModule (documentId s)) s)"

definition startProcess_module_response ::
  "training_module response \<Rightarrow> session \<Rightarrow> session" where
  "startProcess_module_response r s =
     (case r of
        OkJson m \<Rightarrow> s\<lparr>trainingModule := Some m\<rparr>
      | _ \<Rightarrow> showSection ''upload''
               (alert (''Error: '' @ thrown_message ''Module creation failed'' r) s))"

definition startProcess ::
  "bool \<Rightarrow> jsstring response \<Rightarrow> cleanup_result response \<Rightarrow> training_module response
     \<Rightarrow> session \<Rightarrow> session" where
  \<comment> \<open>one run of the handler with no other event in between: the responses of the
      upload, of the cleanup fetch and of the module creation, and the timer that follows\<close>
  "startProcess file upload_r cleanup_r module_r s =
     (if \<not> file then s
      else
        let s2 = startProcess_upload_response upload_r (startProcess_click file s) in
        case upload_r of
          OkJson _ \<Rightarrow>
            (let s3 = startProcess_cleanup_response cleanup_r s2 in
             case cleanup_r of
               OkJson _ \<Rightarrow> cleanup_timer s3
             | _ \<Rightarrow>
                 (let s4 = startProcess_module_response module_r s3 in
                  case module_r of OkJson _ \<Rightarrow> module_timer s4 | _ \<Rightarrow> s4))
        | _ \<Rightarrow> s2)"

section \<open>Bilingual editor\<close>

text \<open>
  The editing surface is the Quill widget, outside the repository. The model keeps of a
  live editor its serialised content (\<open>editorInstance.root.innerHTML\<close>), and takes as a
  parameter \<open>surface\<close> the content a fresh editor serialises after
  \<open>dangerouslyPasteHTML(html)\<close>.
\<close>

definition destroyEditor :: "session \<Rightarrow> session" where
  "destroyEditor s = s\<lparr>editorInstance := None\<rparr>"

definition active_content :: "string \<Rightarrow> cleanup_result \<Rightarrow> string" where
  \<comment> \<open>\<open>edited || cleaned || ''\<close> of the buffer the language selects\<close>
  "active_content lang result =
     (if lang = ''indonesian''
      then or_default (js_or (edited_indonesian result) (cleaned_indonesian result)) []
      else or_default (js_or (edited_english result) (cleaned_english result)) [])"

definition initQuillEditor :: "(string \<Rightarrow> string) \<Rightarrow> session \<Rightarrow> session" where
  "initQuillEditor surface s =
     (let s1 = destroyEditor s in
      case cleanupResult s1 of
        None \<Rightarrow> s1\<lparr>uncaught := uncaught s1 @ [''TypeError'']\<rparr>
      | Some result \<Rightarrow>
          updateEditorStatus ''Ready'' []
            (s1\<lparr>editorInstance :=
                  Some (surface (convertTextToHtml
                    (Some (active_content (currentEditorLanguage s1) result))))\<rparr>))"

definition set_edited :: "string \<Rightarrow> string \<Rightarrow> cleanup_result \<Rightarrow> cleanup_result" where
  \<comment> \<open>the assignment to \<open>edited_indonesian\<close> or \<open>edited_english\<close> by the current language\<close>
  "set_edited lang content result =
     (if lang = ''indonesian'' then result\<lparr>edited_indonesian := Some content\<rparr>
      else result\<lparr>edited_english := Some content\<rparr>)"


definition editDocument_click :: "(string \<Rightarrow> string) \<Rightarrow> session \<Rightarrow> session" where
  \<comment> \<open>the edit button: \<open>openDocumentEditor\<close> when there is a cleanup result\<close>
  "editDocument_click surface s =
     (if cleanupResult s = None then s
      else initQuillEditor surface
             ((showSection ''editor'' s)\<lparr>currentEditorLanguage := ''indonesian''\<rparr>))"

definition text_change :: "string \<Rightarrow> session \<Rightarrow> session" where
  \<comment> \<open>the user edits the live editor, whose content becomes the argument\<close>
  "text_change content s =
     (if editorInstance s = None then s
      else updateEditorStatus ''Unsaved changes'' [] (s\<lparr>editorInstance := Some content\<rparr>))"

definition saveEditedDocument_call :: "session \<Rightarrow> session" where
  "saveEditedDocument_call s =
     (if editorInstance s = None \<or> falsy (documentId s) then s
      else fetch (PutSave (documentId s) (the (editorInstance s)) (currentEditorLanguage s))
             (updateEditorStatus ''Saving...'' ''saving'' s))"

definition saveEditedDocument_response :: "string \<Rightarrow> unit response \<Rightarrow> session \<Rightarrow> session" where
  \<comment> \<open>the first argument is \<open>content\<close>, read from the editor before the request\<close>
  "saveEditedDocument_response content r s =
     (case r of
        OkJson _ \<Rightarrow>
          (case cleanupResult s of
             Some result \<Rightarrow>
               updateEditorStatus ''Saved successfully'' ''saved''
                 (s\<lparr>cleanupResult :=
                     Some (set_edited (currentEditorLanguage s) content result)\<rparr>)
           | None \<Rightarrow>
               alert (''Failed to save document: TypeError'')
                 (updateEditorStatus ''Error saving'' ''error'' s))
      | _ \<Rightarrow>
          alert (''Failed to save document: '' @ thrown_message ''Failed to save document'' r)
            (updateEditorStatus ''Error saving'' ''error'' s))"

definition saveEditedDocument_timer :: "session \<Rightarrow> session" where
  "saveEditedDocument_timer s = updateEditorStatus ''Ready'' [] s"

definition saveEditedDocument :: "unit response \<Rightarrow> session \<Rightarrow> session" where
  \<comment> \<open>one run of the handler with no other event before the response\<close>
  "saveEditedDocument r s =
     (if editorInstance s = None \<or> falsy (documentId s) then s
      else saveEditedDocument_response (the (editorInstance s)) r (saveEditedDocument_call s))"

subsection \<open>The content selection as the specification words it\<close>



section \<open>Failed responses and the session fields a stage owns\<close>

definition failed :: "'a response \<Rightarrow> bool" where
  \<comment> \<open>every response that ends in the \<open>catch\<close> block of a stage handler\<close>
  "failed r = (case r of OkJson _ \<Rightarrow> False | _ \<Rightarrow> True)"

definition session_state ::
  "session \<Rightarrow> jsstring \<times> training_module option \<times> compliance_report option
     \<times> cleanup_result option" where
  "session_state s = (documentId s, trainingModule s, complianceReport s, cleanupResult s)"

section \<open>Sample sessions\<close>


definition bilingual_result :: cleanup_result where
  "bilingual_result =
     \<lparr>cleanup_document_id = ''d1'', original_content = Some ''Teks'',
      cleaned_indonesian = Some ''Teks'', cleaned_english = Some ''Text'',
      edited_indonesian = None, edited_english = None, issues = []\<rparr>"

definition editing_session :: session where
  \<comment> \<open>document \<open>d1\<close> open in the editor, Indonesian buffer live and edited\<close>
  "editing_session =
     initial_session\<lparr>documentId := Some ''d1'', cleanupResult := Some bilingual_result,
       editorInstance := Some ''<p>Teks baru</p>'', shown_section := ''editor''\<rparr>"



definition report_d1 :: compliance_report where
  "report_d1 = \<lparr>report_document_id = ''d1'', compliance_score = Some 30\<rparr>"

definition module_d1 :: training_module where
  "module_d1 =
     \<lparr>module_document_id = Some ''d1'', document_type = Some ''NDA'', summary = None\<rparr>"

definition stale_session :: session where
  \<comment> \<open>the report of \<open>d1\<close> is requested, then the report of \<open>d2\<close>; no response yet\<close>
  "stale_session =
     viewExistingReport_call ''d2'' (viewExistingReport_call ''d1'' initial_session)"

text \<open>A sample plain text: a chapter heading, a blank-line run, a two-line paragraph.\<close>

definition sample_text :: string where
  "sample_text = ''PASAL 1'' @ [newline, newline, newline] @ ''Para one'' @ [newline] @ ''more''"

section \<open>Properties of the text helpers and of the score classification\<close>

text \<open>
  C5: a compliance score of at least 90 is labelled COMPLIANT, a score from 70 up to but
  excluding 90 MOSTLY COMPLIANT, a score from 50 up to but excluding 70 NEEDS REVIEW, and
  a score below 50 NON-COMPLIANT.
\<close>

theorem score_classification:
  fixes report :: compliance_report and s :: int
  assumes "compliance_score report = Some s"
  shows "(90 \<le> s \<longrightarrow> statusLabel (renderComplianceReport report) = ''COMPLIANT'')
       \<and> (70 \<le> s \<and> s < 90 \<longrightarrow>
            statusLabel (renderComplianceReport report) = ''MOSTLY COMPLIANT'')
       \<and> (50 \<le> s \<and> s < 70 \<longrightarrow>
            statusLabel (renderComplianceReport report) = ''NEEDS REVIEW'')
       \<and> (s < 50 \<longrightarrow> statusLabel (renderComplianceReport report) = ''NON-COMPLIANT'')"
  using assms by (simp add: renderComplianceReport_def)

theorem score_classification_witness:
  "statusLabel (renderComplianceReport
      \<lparr>report_document_id = ''d1'', compliance_score = Some 95\<rparr>) = ''COMPLIANT''
   \<and> statusLabel (renderComplianceReport
      \<lparr>report_document_id = ''d1'', compliance_score = Some 75\<rparr>) = ''MOSTLY COMPLIANT''
   \<and> statusLabel (renderComplianceReport
      \<lparr>report_document_id = ''d1'', compliance_score = Some 55\<rparr>) = ''NEEDS REVIEW''
   \<and> statusLabel (renderComplianceReport
      \<lparr>report_document_id = ''d1'', compliance_score = Some 30\<rparr>) = ''NON-COMPLIANT''
   \<and> statusLabel (renderComplianceReport
      \<lparr>report_document_id = ''d1'', compliance_score = Some 90\<rparr>) = ''COMPLIANT''
   \<and> statusLabel (renderComplianceReport
      \<lparr>report_document_id = ''d1'', compliance_score = Some 70\<rparr>) = ''MOSTLY COMPLIANT''
   \<and> statusLabel (renderComplianceReport
      \<lparr>report_document_id = ''d1'', compliance_score = Some 50\<rparr>) = ''NEEDS REVIEW''"
  using
    score_classification [of "\<lparr>report_document_id = ''d1'', compliance_score = Some 95\<rparr>" 95]
    score_classification [of "\<lparr>report_document_id = ''d1'', compliance_score = Some 75\<rparr>" 75]
    score_classification [of "\<lparr>report_document_id = ''d1'', compliance_score = Some 55\<rparr>" 55]
    score_classification [of "\<lparr>report_document_id = ''d1'', compliance_score = Some 30\<rparr>" 30]
    score_classification [of "\<lparr>report_document_id = ''d1'', compliance_score = Some 90\<rparr>" 90]
    score_classification [of "\<lparr>report_document_id = ''d1'', compliance_score = Some 70\<rparr>" 70]
    score_classification [of "\<lparr>report_document_id = ''d1'', compliance_score = Some 50\<rparr>" 50]
  by simp

text \<open>
  C8: with the limit 100, \<open>truncateText\<close> returns a string of at most 100 characters
  unchanged, returns the first 100 characters followed by \<open>...\<close> for a longer string, and
  returns the empty string for null or undefined; the excerpt of every issue card is the
  fragment truncated with that limit.
\<close>

theorem truncateText_100:
  "truncateText None 100 = []
   \<and> truncateText (Some s) 100 =
       (if length s \<le> 100 then s else take 100 s @ ''...'')
   \<and> original_text_html (renderIssueCard issue) =
       [dquote] @ escapeHtml (Some (truncateText (original_text issue) 100)) @ [dquote]"
  by (auto simp add: truncateText_def falsy_def renderIssueCard_def)

theorem truncateText_100_witness:
  "truncateText (Some ''short'') 100 = ''short''
   \<and> truncateText (Some (replicate 101 CHR ''a'')) 100 = replicate 100 CHR ''a'' @ ''...''
   \<and> length (truncateText (Some (replicate 101 CHR ''a'')) 100) = 103"
  using truncateText_100 [of "''short''" sample_issue]
    truncateText_100 [of "replicate 101 CHR ''a''" sample_issue]
  by simp

text \<open>
  C9: \<open>formatDocumentText\<close> escapes \<open><\<close> and \<open>>\<close> but not \<open>&\<close>, so the distinct inputs
  \<open><\<close> and \<open>&lt;\<close> both give \<open>&lt;\<close>; it is not injective, and no decoder recovers
  every original text from its rendering.
\<close>

theorem formatDocumentText_not_injective:
  "formatDocumentText (Some ''<'') = ''&lt;''
   \<and> formatDocumentText (Some ''&lt;'') = ''&lt;''
   \<and> Some ''<'' \<noteq> Some ''&lt;''
   \<and> \<not> inj formatDocumentText
   \<and> \<not> (\<exists>decode. \<forall>t. decode (formatDocumentText (Some t)) = t)"
proof -
  have a: "formatDocumentText (Some ''<'') = ''&lt;''"
    by (simp add: formatDocumentText_def falsy_def replace_all_char_def newline_def tab_def)
  have b: "formatDocumentText (Some ''&lt;'') = ''&lt;''"
    by (simp add: formatDocumentText_def falsy_def replace_all_char_def newline_def tab_def)
  have c: "\<not> inj formatDocumentText"
  proof
    assume "inj formatDocumentText"
    moreover have "formatDocumentText (Some ''<'') = formatDocumentText (Some ''&lt;'')"
      using a b by simp
    ultimately have "Some ''<'' = Some ''&lt;''"
      by (rule injD)
    then show False by simp
  qed
  have d: "\<not> (\<exists>decode. \<forall>t. decode (formatDocumentText (Some t)) = t)"
  proof
    assume "\<exists>decode. \<forall>t. decode (formatDocumentText (Some t)) = t"
    then obtain decode where dec: "\<forall>t. decode (formatDocumentText (Some t)) = t" ..
    from dec have "decode (formatDocumentText (Some ''<'')) = ''<''" by blast
    moreover from dec have "decode (formatDocumentText (Some ''&lt;'')) = ''&lt;''" by blast
    ultimately have "''<'' = ''&lt;''" using a b by simp
    then show False by simp
  qed
  from a b c d show ?thesis by simp
qed

section \<open>Plain text promotion never yields the empty string\<close>

lemma dropWhile_Nil_iff_all: "dropWhile P s = [] \<longleftrightarrow> list_all P s"
  by (simp add: list_all_iff)

lemma trim_Nil_iff: "trim s = [] \<longleftrightarrow> list_all js_whitespace s"
proof
  assume "list_all js_whitespace s"
  then have "dropWhile js_whitespace s = []" by (simp add: dropWhile_Nil_iff_all del: dropWhile_eq_Nil_conv)
  then show "trim s = []" by (simp add: trim_def del: dropWhile_eq_Nil_conv)
next
  assume t: "trim s = []"
  show "list_all js_whitespace s"
  proof (rule ccontr)
    assume "\<not> list_all js_whitespace s"
    then have ne: "dropWhile js_whitespace s \<noteq> []" by (simp add: dropWhile_Nil_iff_all del: dropWhile_eq_Nil_conv)
    then have "\<not> js_whitespace (hd (dropWhile js_whitespace s))" by (rule hd_dropWhile)
    moreover have "hd (dropWhile js_whitespace s) \<in> set (rev (dropWhile js_whitespace s))"
      using ne by simp
    ultimately have "\<not> list_all js_whitespace (rev (dropWhile js_whitespace s))"
      by (auto simp add: list_all_iff)
    then have "dropWhile js_whitespace (rev (dropWhile js_whitespace s)) \<noteq> []"
      by (simp add: dropWhile_Nil_iff_all del: dropWhile_eq_Nil_conv)
    then show False using t by (simp add: trim_def del: dropWhile_eq_Nil_conv)
  qed
qed

lemma foldl_append_paragraph:
  "foldl append_paragraph acc xs = acc @ concat (map paragraph_block (filter (\<lambda>p. p \<noteq> []) (map trim xs)))"
  by (induction xs arbitrary: acc) (auto simp add: append_paragraph_def Let_def)

lemma ne_in_set_Nil: "x \<in> set xs \<Longrightarrow> xs \<noteq> []"
  by (cases xs) simp_all

lemma paragraph_block_nonempty: "paragraph_block p \<noteq> []"
  by (simp add: paragraph_block_def)

lemma split_chunks_subset:
  "x \<in> set (split_blank_lines cur s) \<Longrightarrow> set x \<subseteq> set cur \<union> set s"
  apply (induction cur s rule: split_blank_lines.induct)
   apply (auto split: if_splits dest: set_dropWhileD)
  done

lemma in_set_dropWhile_or: "x \<in> set cs \<Longrightarrow> x \<in> set (dropWhile P cs) \<or> P x"
  by (induction cs) auto

lemma split_chunks_cover:
  "y \<in> set cur \<union> set s \<Longrightarrow> y \<noteq> newline \<Longrightarrow> \<exists>x \<in> set (split_blank_lines cur s). y \<in> set x"
proof (induction cur s rule: split_blank_lines.induct)
  case (1 cur)
  then show ?case by simp
next
  case (2 cur c cs)
  show ?case
  proof (cases "c = newline \<and> prefix [newline] cs")
    case True
    show ?thesis
    proof (cases "y \<in> set cur")
      case True
      then show ?thesis using \<open>c = newline \<and> prefix [newline] cs\<close> by simp
    next
      case False
      with 2 True have "y \<in> set cs" by auto
      then have "y \<in> set (dropWhile (\<lambda>x. x = newline) cs)"
        using in_set_dropWhile_or [of y cs "\<lambda>x. x = newline"] 2(4) by simp
      then have "\<exists>x \<in> set (split_blank_lines [] (dropWhile (\<lambda>x. x = newline) cs)). y \<in> set x"
        using 2(1) True 2(4) by simp
      then show ?thesis using True by auto
    qed
  next
    case False
    have "y \<in> set (cur @ [c]) \<union> set cs" using 2(3) by auto
    then have "\<exists>x \<in> set (split_blank_lines (cur @ [c]) cs). y \<in> set x"
      using 2(2) False 2(4) by blast
    then show ?thesis using False by auto
  qed
qed

text \<open>
  C10: \<open>convertTextToHtml\<close> never returns the empty string; it returns \<open><p></p>\<close> for
  null, undefined, empty and whitespace-only input, returns an input whose trimmed value
  starts with \<open><\<close> unchanged, and for every other input returns the non-empty
  concatenation of the \<open><h2>\<close> and \<open><p>\<close> blocks of the non-blank chunks between
  blank lines.
\<close>

theorem convertTextToHtml_cases:
  "convertTextToHtml t \<noteq> []
   \<and> convertTextToHtml None = ''<p></p>''
   \<and> (list_all js_whitespace s \<longrightarrow> convertTextToHtml (Some s) = ''<p></p>'')
   \<and> (looks_like_html s \<longrightarrow> convertTextToHtml (Some s) = s)
   \<and> (\<not> list_all js_whitespace s \<and> \<not> looks_like_html s \<longrightarrow>
        filter (\<lambda>p. p \<noteq> []) (map trim (split_blank_lines [] s)) \<noteq> []
        \<and> convertTextToHtml (Some s) =
            concat (map paragraph_block
              (filter (\<lambda>p. p \<noteq> []) (map trim (split_blank_lines [] s)))))
   \<and> (paragraph_block p = ''<h2>'' @ escapeHtml (Some p) @ ''</h2>'' @ [newline]
        \<or> paragraph_block p = ''<p>'' @ escapeHtml (Some p) @ ''</p>'' @ [newline]
        \<or> paragraph_block p =
            ''<p>'' @ escapeHtml (Some (replace_all_char newline ''<br>'' p)) @ ''</p>''
              @ [newline])"
proof -
  let ?chunks = "filter (\<lambda>p. p \<noteq> []) (map trim (split_blank_lines [] s))"
  have nonempty: "convertTextToHtml t \<noteq> []"
  proof (cases "falsy t")
    case True
    then show ?thesis by (simp add: convertTextToHtml_def)
  next
    case False
    then have "the t \<noteq> []" by (cases t) (simp_all add: falsy_def)
    with False show ?thesis by (simp add: convertTextToHtml_def Let_def)
  qed
  have none: "convertTextToHtml None = ''<p></p>''"
    by (simp add: convertTextToHtml_def falsy_def)
  have ws: "convertTextToHtml (Some s) = ''<p></p>''" if all: "list_all js_whitespace s"
  proof (cases "s = []")
    case True
    then show ?thesis by (simp add: convertTextToHtml_def falsy_def)
  next
    case False
    have "trim s = []" using all by (simp only: trim_Nil_iff)
    then have nohtml: "\<not> looks_like_html s" by (simp add: looks_like_html_def)
    have "trim x = []" if "x \<in> set (split_blank_lines [] s)" for x
    proof -
      have "set x \<subseteq> set s" using split_chunks_subset [OF that] by simp
      then have "list_all js_whitespace x" using all by (auto simp add: list_all_iff)
      then show ?thesis by (simp only: trim_Nil_iff)
    qed
    then have "?chunks = []" by (auto simp add: filter_empty_conv)
    then have "foldl append_paragraph [] (split_blank_lines [] s) = []"
      by (simp add: foldl_append_paragraph)
    with False nohtml show ?thesis by (simp add: convertTextToHtml_def falsy_def)
  qed
  have html: "convertTextToHtml (Some s) = s" if "looks_like_html s"
  proof -
    have "trim s \<noteq> []" using that by (auto simp add: looks_like_html_def)
    then have "s \<noteq> []" by (auto simp add: trim_def)
    with that show ?thesis by (simp add: convertTextToHtml_def falsy_def)
  qed
  have plain: "?chunks \<noteq> [] \<and> convertTextToHtml (Some s) = concat (map paragraph_block ?chunks)"
    if nws: "\<not> list_all js_whitespace s" and nohtml: "\<not> looks_like_html s"
  proof -
    from nws obtain y where y: "y \<in> set s" "\<not> js_whitespace y"
      by (auto simp add: list_all_iff)
    then have "y \<noteq> newline" by (auto simp add: js_whitespace_def newline_def)
    with y obtain x where x: "x \<in> set (split_blank_lines [] s)" "y \<in> set x"
      using split_chunks_cover [of y "[]" s] by auto
    with y have "\<not> list_all js_whitespace x" by (auto simp add: list_all_iff)
    then have "trim x \<noteq> []" by (simp add: trim_Nil_iff)
    with x have "trim x \<in> set ?chunks" by auto
    then have ne: "?chunks \<noteq> []" by (rule ne_in_set_Nil)
    then obtain c cs where ccs: "?chunks = c # cs" by (cases ?chunks) blast+
    define html where "html = foldl append_paragraph [] (split_blank_lines [] s)"
    have "concat (map paragraph_block ?chunks) \<noteq> []"
      by (simp only: ccs) (simp add: paragraph_block_nonempty)
    moreover have html_eq: "html = concat (map paragraph_block ?chunks)"
      by (simp only: html_def foldl_append_paragraph append_Nil)
    ultimately have html_ne: "html \<noteq> []" by metis
    have "s \<noteq> []" using nws by auto
    then have "convertTextToHtml (Some s) = (if html = [] then ''<p></p>'' else html)"
      using nohtml by (simp add: convertTextToHtml_def falsy_def Let_def html_def)
    with html_ne have "convertTextToHtml (Some s) = html" by simp
    with html_eq have "convertTextToHtml (Some s) = concat (map paragraph_block ?chunks)"
      by metis
    with ne show ?thesis by blast
  qed
  have block: "paragraph_block p = ''<h2>'' @ escapeHtml (Some p) @ ''</h2>'' @ [newline]
        \<or> paragraph_block p = ''<p>'' @ escapeHtml (Some p) @ ''</p>'' @ [newline]
        \<or> paragraph_block p =
            ''<p>'' @ escapeHtml (Some (replace_all_char newline ''<br>'' p)) @ ''</p>''
              @ [newline]"
    by (simp add: paragraph_block_def)
  from nonempty none ws html plain block show ?thesis by blast
qed

theorem convertTextToHtml_cases_witness:
  "convertTextToHtml (Some ''  '') = ''<p></p>''
   \<and> convertTextToHtml (Some '' <b>x</b>'') = '' <b>x</b>''
   \<and> convertTextToHtml (Some sample_text) =
       ''<h2>PASAL 1</h2>'' @ [newline] @ ''<p>Para one&lt;br&gt;more</p>'' @ [newline]"
proof -
  have h1: "list_all js_whitespace ''  ''" by (simp add: js_whitespace_def)
  have h2: "looks_like_html '' <b>x</b>''" by code_simp
  have h3: "\<not> list_all js_whitespace sample_text \<and> \<not> looks_like_html sample_text" by code_simp
  have e3: "concat (map paragraph_block
              (filter (\<lambda>p. p \<noteq> []) (map trim (split_blank_lines [] sample_text))))
       = ''<h2>PASAL 1</h2>'' @ [newline] @ ''<p>Para one&lt;br&gt;more</p>'' @ [newline]" by code_simp
  from h1 convertTextToHtml_cases [of None "''  ''" "[]"]
  have c1: "convertTextToHtml (Some ''  '') = ''<p></p>''" by blast
  from h2 convertTextToHtml_cases [of None "'' <b>x</b>''" "[]"]
  have c2: "convertTextToHtml (Some '' <b>x</b>'') = '' <b>x</b>''" by blast
  from h3 convertTextToHtml_cases [of None sample_text "[]"]
  have c3: "convertTextToHtml (Some sample_text) = concat (map paragraph_block
              (filter (\<lambda>p. p \<noteq> []) (map trim (split_blank_lines [] sample_text))))" by blast
  from c1 c2 c3 e3 show ?thesis by simp
qed

section \<open>The annotation overlay replaces first occurrences, then escapes\<close>












lemma replace_all_char_append:
  "replace_all_char c rep (a @ b) = replace_all_char c rep a @ replace_all_char c rep b"
  by (simp add: replace_all_char_def)

lemma replace_all_char_removes:
  "c \<notin> set rep \<Longrightarrow> c \<notin> set (replace_all_char c rep s)"
  by (auto simp add: replace_all_char_def split: if_splits)

lemma replace_all_char_keeps_absent:
  "x \<notin> set rep \<Longrightarrow> x \<notin> set s \<Longrightarrow> x \<notin> set (replace_all_char c rep s)"
  by (auto simp add: replace_all_char_def split: if_splits)

lemma skip_piece:
  "x \<notin> set p \<Longrightarrow> p @ rest = u @ x # v \<Longrightarrow> \<exists>u'. rest = u' @ x # v"
proof (induction p arbitrary: u)
  case Nil
  then show ?case by auto
next
  case (Cons a p)
  then obtain u1 where "u = a # u1" by (cases u) auto
  with Cons.prems have "p @ rest = u1 @ x # v" by simp
  moreover have "x \<notin> set p" using Cons.prems by simp
  ultimately show ?case by (rule Cons.IH [rotated])
qed

lemma br_piece:
  assumes "''<br>'' @ rest = u @ CHR ''<'' # v"
  shows "(\<exists>w. v = CHR ''b'' # w) \<or> (\<exists>u'. rest = u' @ CHR ''<'' # v)"
proof (cases u)
  case Nil
  with assms have "v = CHR ''b'' # (''r>'' @ rest)" by simp
  then show ?thesis by blast
next
  case (Cons a u1)
  with assms have "''br>'' @ rest = u1 @ CHR ''<'' # v" by simp
  moreover have "CHR ''<'' \<notin> set ''br>''" by simp
  ultimately have "\<exists>u'. rest = u' @ CHR ''<'' # v" by (rule skip_piece [rotated])
  then show ?thesis ..
qed

lemma lt_then_b:
  assumes "CHR ''<'' \<notin> set x"
    and "replace_all_char tab ''&nbsp;&nbsp;&nbsp;&nbsp;'' (replace_all_char newline ''<br>'' x)
           = u @ CHR ''<'' # v"
  shows "\<exists>w. v = CHR ''b'' # w"
  using assms
proof (induction x arbitrary: u)
  case Nil
  then show ?case by (simp add: replace_all_char_def)
next
  case (Cons c cs)
  let ?g = "\<lambda>y. replace_all_char tab ''&nbsp;&nbsp;&nbsp;&nbsp;'' (replace_all_char newline ''<br>'' y)"
  have nolt: "CHR ''<'' \<notin> set cs" and c: "c \<noteq> CHR ''<''" using Cons.prems(1) by auto
  have step: "?g (c # cs) =
      (if c = newline then ''<br>'' else if c = tab then ''&nbsp;&nbsp;&nbsp;&nbsp;'' else [c]) @ ?g cs"
    by (simp add: replace_all_char_def newline_def tab_def)
  show ?case
  proof (cases "c = newline")
    case True
    with step Cons.prems(2) have "''<br>'' @ ?g cs = u @ CHR ''<'' # v" by simp
    then have "(\<exists>w. v = CHR ''b'' # w) \<or> (\<exists>u'. ?g cs = u' @ CHR ''<'' # v)" by (rule br_piece)
    then show ?thesis using Cons.IH [OF nolt] by blast
  next
    case False
    define p where "p = (if c = tab then ''&nbsp;&nbsp;&nbsp;&nbsp;'' else [c])"
    have "CHR ''<'' \<notin> set p" using c by (simp add: p_def)
    moreover have "p @ ?g cs = u @ CHR ''<'' # v"
      using step Cons.prems(2) False by (simp add: p_def)
    ultimately have "\<exists>u'. ?g cs = u' @ CHR ''<'' # v" by (rule skip_piece)
    then show ?thesis using Cons.IH [OF nolt] by blast
  qed
qed

lemma formatDocumentText_no_mark: "\<not> sublist ''<mark'' (formatDocumentText t)"
proof
  assume "sublist ''<mark'' (formatDocumentText t)"
  then obtain ps ss where eq: "formatDocumentText t = ps @ ''<mark'' @ ss"
    by (auto simp add: sublist_def)
  then have nf: "\<not> falsy t" by (auto simp add: formatDocumentText_def)
  define x where "x = replace_all_char CHR ''>'' ''&gt;'' (replace_all_char CHR ''<'' ''&lt;'' (the t))"
  have "CHR ''<'' \<notin> set (replace_all_char CHR ''<'' ''&lt;'' (the t))"
    by (rule replace_all_char_removes) simp
  moreover have "CHR ''<'' \<notin> set ''&gt;''" by simp
  ultimately have "CHR ''<'' \<notin> set x"
    unfolding x_def by (rule replace_all_char_keeps_absent [rotated])
  moreover have "replace_all_char tab ''&nbsp;&nbsp;&nbsp;&nbsp;'' (replace_all_char newline ''<br>'' x)
      = ps @ CHR ''<'' # (''mark'' @ ss)"
    using eq nf by (simp add: formatDocumentText_def x_def)
  ultimately have "\<exists>w. ''mark'' @ ss = CHR ''b'' # w" by (rule lt_then_b)
  then show False by simp
qed

text \<open>
  C1: the overlay is expected to encode the base text first and to leave the injected
  highlight markup intact. On the sample result the code injects the markup into the
  raw text and then encodes the whole string, so the \<open>mark\<close> tags reach the page as
  \<open>&lt;mark ...&gt;\<close> and the rendered string holds no \<open>mark\<close> element. The same
  holds of every text that goes through \<open>formatDocumentText\<close>.
\<close>

theorem overlay_markup_is_escaped:
  "original_content_html (renderCleanupResults sample_result) =
     pre_open @ ''if &lt;mark class='' @ [dquote] @ ''highlight-terminology'' @ [dquote]
       @ '' title='' @ [dquote] @ ''r'' @ [dquote] @ ''&gt;a&lt;b&lt;/mark&gt; or a&lt;b</pre>''
   \<and> \<not> sublist ''<mark'' (original_content_html (renderCleanupResults sample_result))
   \<and> (\<forall>t. \<not> sublist ''<mark'' (formatDocumentText t))"
proof -
  have "original_content_html (renderCleanupResults sample_result) =
     pre_open @ ''if &lt;mark class='' @ [dquote] @ ''highlight-terminology'' @ [dquote]
       @ '' title='' @ [dquote] @ ''r'' @ [dquote] @ ''&gt;a&lt;b&lt;/mark&gt; or a&lt;b</pre>''
   \<and> \<not> sublist ''<mark'' (original_content_html (renderCleanupResults sample_result))"
    by code_simp
  with formatDocumentText_no_mark show ?thesis by blast
qed

section \<open>Workflow responses and the bilingual editor\<close>

text \<open>
  C4: when the save request fails (a response that is not ok, or an error thrown by the
  request or by reading its body), the response handler leaves the cleanup result, and
  with it both language buffers, and the live editor content unchanged, and sets the
  editor status to \<open>Error saving\<close> with class \<open>error\<close>, never \<open>saved\<close>.
\<close>

theorem save_failure_keeps_buffers:
  assumes "r = NotOk \<or> r = Rejected m \<or> r = OkBadJson m"
  shows "cleanupResult (saveEditedDocument_response content r s) = cleanupResult s
     \<and> editorInstance (saveEditedDocument_response content r s) = editorInstance s
     \<and> editor_status (saveEditedDocument_response content r s) = (''Error saving'', ''error'')
     \<and> snd (editor_status (saveEditedDocument_response content r s)) \<noteq> ''saved''
     \<and> (editorInstance s \<noteq> None \<and> \<not> falsy (documentId s) \<longrightarrow>
          cleanupResult (saveEditedDocument r s) = cleanupResult s
          \<and> editorInstance (saveEditedDocument r s) = editorInstance s
          \<and> editor_status (saveEditedDocument r s) = (''Error saving'', ''error''))"
  using assms
  by (auto simp add: saveEditedDocument_response_def saveEditedDocument_def
      saveEditedDocument_call_def alert_def updateEditorStatus_def fetch_def)

theorem save_failure_keeps_buffers_witness:
  "cleanupResult (saveEditedDocument NotOk editing_session) = Some bilingual_result
   \<and> editorInstance (saveEditedDocument NotOk editing_session) = Some ''<p>Teks baru</p>''
   \<and> editor_status (saveEditedDocument NotOk editing_session) = (''Error saving'', ''error'')"
proof -
  have h: "editorInstance editing_session \<noteq> None \<and> \<not> falsy (documentId editing_session)"
    by (simp add: editing_session_def initial_session_def falsy_def)
  have c: "cleanupResult editing_session = Some bilingual_result
      \<and> editorInstance editing_session = Some ''<p>Teks baru</p>''"
    by (simp add: editing_session_def initial_session_def)
  from save_failure_keeps_buffers [of NotOk "[]" "[]" editing_session] h c
  show ?thesis by simp
qed

text \<open>
  C6: after a successful upload, a cleanup fetch that is not ok or that throws does not
  end the run: the module creation request for the uploaded document follows at once,
  with no alert and the cleanup result untouched; the module page is shown when module
  creation succeeds. A failed upload or a failed module creation returns to the upload
  section with an alert.
\<close>

theorem cleanup_absence_falls_through:
  assumes "cleanup_r = NotOk \<or> cleanup_r = Rejected m \<or> cleanup_r = OkBadJson m"
  shows "requests (startProcess True (OkJson uid) cleanup_r module_r s) =
           requests s @ [PostUpload, GetCleanup uid, PostCreateModule uid]
     \<and> cleanupResult (startProcess True (OkJson uid) cleanup_r module_r s) = cleanupResult s
     \<and> (module_r = OkJson mo \<longrightarrow>
          trainingModule (startProcess True (OkJson uid) cleanup_r module_r s) = Some mo
          \<and> shown_section (startProcess True (OkJson uid) cleanup_r module_r s) = ''module''
          \<and> alerts (startProcess True (OkJson uid) cleanup_r module_r s) = alerts s)
     \<and> (failed module_r \<longrightarrow>
          trainingModule (startProcess True (OkJson uid) cleanup_r module_r s) = trainingModule s
          \<and> shown_section (startProcess True (OkJson uid) cleanup_r module_r s) = ''upload''
          \<and> alerts (startProcess True (OkJson uid) cleanup_r module_r s) =
              alerts s @ [''Error: '' @ thrown_message ''Module creation failed'' module_r])
     \<and> (failed upload_r \<longrightarrow>
          shown_section (startProcess True upload_r cleanup_r module_r s) = ''upload''
          \<and> alerts (startProcess True upload_r cleanup_r module_r s) =
              alerts s @ [''Error: '' @ thrown_message ''Upload failed'' upload_r]
          \<and> requests (startProcess True upload_r cleanup_r module_r s) = requests s @ [PostUpload]
          \<and> session_state (startProcess True upload_r cleanup_r module_r s) = session_state s)"
proof -
  have fall: "startProcess True (OkJson uid) cleanup_r module_r s =
      (let s4 = startProcess_module_response module_r
                  (fetch (PostCreateModule uid)
                    (fetch (GetCleanup uid)
                      ((fetch PostUpload (showSection ''processing'' s))\<lparr>documentId := uid\<rparr>)))
       in case module_r of OkJson _ \<Rightarrow> module_timer s4 | _ \<Rightarrow> s4)"
    using assms
    by (auto simp add: startProcess_def startProcess_click_def startProcess_upload_response_def
        startProcess_cleanup_response_def fetch_def Let_def)
  have up: "startProcess True upload_r cleanup_r module_r s =
      showSection ''upload'' (alert (''Error: '' @ thrown_message ''Upload failed'' upload_r)
        (fetch PostUpload (showSection ''processing'' s)))" if "failed upload_r"
    using that
    by (cases upload_r)
       (simp_all add: startProcess_def startProcess_click_def startProcess_upload_response_def
        failed_def)
  have ok_part: "requests (startProcess True (OkJson uid) cleanup_r module_r s) =
           requests s @ [PostUpload, GetCleanup uid, PostCreateModule uid]
     \<and> cleanupResult (startProcess True (OkJson uid) cleanup_r module_r s) = cleanupResult s
     \<and> (module_r = OkJson mo \<longrightarrow>
          trainingModule (startProcess True (OkJson uid) cleanup_r module_r s) = Some mo
          \<and> shown_section (startProcess True (OkJson uid) cleanup_r module_r s) = ''module''
          \<and> alerts (startProcess True (OkJson uid) cleanup_r module_r s) = alerts s)
     \<and> (failed module_r \<longrightarrow>
          trainingModule (startProcess True (OkJson uid) cleanup_r module_r s) = trainingModule s
          \<and> shown_section (startProcess True (OkJson uid) cleanup_r module_r s) = ''upload''
          \<and> alerts (startProcess True (OkJson uid) cleanup_r module_r s) =
              alerts s @ [''Error: '' @ thrown_message ''Module creation failed'' module_r])"
    unfolding fall
    by (cases module_r)
       (simp_all add: startProcess_module_response_def module_timer_def failed_def
        renderTrainingModule_def fetch_def showSection_def alert_def Let_def)
  have up_part: "shown_section (startProcess True upload_r cleanup_r module_r s) = ''upload''
          \<and> alerts (startProcess True upload_r cleanup_r module_r s) =
              alerts s @ [''Error: '' @ thrown_message ''Upload failed'' upload_r]
          \<and> requests (startProcess True upload_r cleanup_r module_r s) = requests s @ [PostUpload]
          \<and> session_state (startProcess True upload_r cleanup_r module_r s) = session_state s"
    if "failed upload_r"
    unfolding up [OF that]
    by (simp add: fetch_def showSection_def alert_def session_state_def)
  from ok_part up_part show ?thesis by blast
qed

theorem cleanup_absence_falls_through_witness:
  "requests (startProcess True (OkJson (Some ''d1'')) NotOk (OkJson module_d1) initial_session) =
       [PostUpload, GetCleanup (Some ''d1''), PostCreateModule (Some ''d1'')]
   \<and> trainingModule (startProcess True (OkJson (Some ''d1'')) NotOk (OkJson module_d1)
        initial_session) = Some module_d1
   \<and> shown_section (startProcess True (OkJson (Some ''d1'')) NotOk (OkJson module_d1)
        initial_session) = ''module''
   \<and> alerts (startProcess True (OkJson (Some ''d1'')) NotOk (OkJson module_d1)
        initial_session) = []
   \<and> alerts (startProcess True NotOk NotOk (OkJson module_d1) initial_session) =
        [''Error: Upload failed'']
   \<and> shown_section (startProcess True NotOk NotOk (OkJson module_d1) initial_session) =
        ''upload''"
proof -
  have h: "(NotOk :: cleanup_result response) = NotOk
      \<or> (NotOk :: cleanup_result response) = Rejected []
      \<or> (NotOk :: cleanup_result response) = OkBadJson []" by simp
  have i: "requests initial_session = [] \<and> alerts initial_session = []"
    by (simp add: initial_session_def)
  have f: "failed (NotOk :: jsstring response)
      \<and> thrown_message ''Upload failed'' (NotOk :: jsstring response) = ''Upload failed''"
    by (simp add: failed_def thrown_message_def)
  from cleanup_absence_falls_through [OF h, where uid = "Some ''d1''"
      and module_r = "OkJson module_d1" and s = initial_session and mo = module_d1
      and upload_r = NotOk] i f
  show ?thesis by simp
qed

text \<open>
  The response handlers hold no check of the active document. With the report of \<open>d1\<close>
  requested first and the report of \<open>d2\<close> requested next, the late response for \<open>d1\<close>
  is stored as the compliance report while \<open>documentId\<close> is \<open>d2\<close>: the race-safety
  property of C2 does not hold as stated.
\<close>

theorem stale_report_overwrites_counterexample:
  "documentId stale_session = Some ''d2''
   \<and> complianceReport stale_session = None
   \<and> report_document_id report_d1 = ''d1''
   \<and> documentId (viewExistingReport_response ''d1'' (OkJson report_d1) stale_session) = Some ''d2''
   \<and> complianceReport (viewExistingReport_response ''d1'' (OkJson report_d1) stale_session)
       = Some report_d1"
  by (simp add: stale_session_def viewExistingReport_call_def viewExistingReport_response_def
      initial_session_def show_report_def showSection_def fetch_def report_d1_def)

text \<open>
  C2, as the code has it: a stage response handler applies its response in whatever
  session it arrives, without comparing it with the active \<open>documentId\<close>. An ok
  response overwrites the compliance report (report fetch, review), the training module
  (module fetch and creation) or the cleanup result (cleanup fetch and re-run); showing a
  fetched module also sets \<open>documentId\<close> to the module's document. A failed response
  leaves \<open>documentId\<close>, the module, the report and the cleanup result unchanged.
\<close>

theorem responses_applied_unconditionally:
  "complianceReport (viewExistingReport_response d (OkJson report) s) = Some report
   \<and> complianceReport (startReview_response (OkJson report) s) = Some report
   \<and> trainingModule (reAnalyzeDocument_response d (OkJson m) s) = Some m
   \<and> documentId (reAnalyzeDocument_response d (OkJson m) s) = module_document_id m
   \<and> trainingModule (skipToModule_response (OkJson m) s) = Some m
   \<and> trainingModule (startProcess_module_response (OkJson m) s) = Some m
   \<and> cleanupResult (viewCleanupResults_response d (OkJson result) s) = Some result
   \<and> cleanupResult (rerunCleanup_response (OkJson result) s) = Some result
   \<and> cleanupResult (startProcess_cleanup_response (OkJson result) s) = Some result
   \<and> (failed rr \<longrightarrow>
        session_state (viewExistingReport_response d rr s) = session_state s
        \<and> session_state (startReview_response rr s) = session_state s)
   \<and> (failed rm \<longrightarrow>
        session_state (reAnalyzeDocument_response d rm s) = session_state s
        \<and> session_state (skipToModule_response rm s) = session_state s
        \<and> session_state (startProcess_module_response rm s) = session_state s)
   \<and> (failed rc \<longrightarrow>
        session_state (viewCleanupResults_response d rc s) = session_state s
        \<and> session_state (rerunCleanup_response rc s) = session_state s
        \<and> session_state (startProcess_cleanup_response rc s) = session_state s)"
  by (cases rr; cases rm; cases rc)
     (simp_all add: viewExistingReport_response_def startReview_response_def
      reAnalyzeDocument_response_def skipToModule_response_def startProcess_module_response_def
      viewCleanupResults_response_def rerunCleanup_response_def
      startProcess_cleanup_response_def show_report_def show_cleanup_def showSection_def
      renderTrainingModule_def alert_def fetch_def click_nav_history_def
      click_nav_documents_def failed_def session_state_def)

theorem responses_applied_unconditionally_witness:
  "complianceReport (viewExistingReport_response ''d1'' (OkJson report_d1) stale_session)
     = Some report_d1
   \<and> session_state (viewExistingReport_response ''d1'' NotOk stale_session)
     = (Some ''d2'', None, None, None)"
proof -
  have f: "failed (NotOk :: compliance_report response)" by (simp add: failed_def)
  have st: "session_state stale_session = (Some ''d2'', None, None, None)"
    by (simp add: session_state_def stale_session_def viewExistingReport_call_def
        initial_session_def showSection_def fetch_def)
  from responses_applied_unconditionally [where d = "''d1''" and report = report_d1
      and s = stale_session and rr = NotOk] f st
  show ?thesis by simp
qed
















end
